theory Spec2Isabelle
  imports Main "HOL-Library.Word"
begin

section \<open>The execution encoding of ztd.text: data model\<close>

text \<open>
  The embedding follows \<^verbatim>\<open>include/ztd/text/execution.hpp\<close>, the branch compiled when
  \<^verbatim>\<open>ZTD_TEXT_PLATFORM_WINDOWS_I_\<close> is off (lines 311-368 of \<^verbatim>\<open>encode_one\<close>, lines
  431-451, 517-607 and 610-626 of \<^verbatim>\<open>decode_one\<close>).
\<close>

type_synonym code_unit = "8 word"    \<comment> \<open>\<^verbatim>\<open>using code_unit = char\<close>\<close>
type_synonym code_point = "32 word"  \<comment> \<open>\<^verbatim>\<open>unicode_code_point\<close>, a \<^verbatim>\<open>char32_t\<close>\<close>
type_synonym size_t = "64 word"      \<comment> \<open>\<^verbatim>\<open>::std::size_t\<close>; \<open>- 1\<close> is \<^verbatim>\<open>static_cast<size_t>(-1)\<close>\<close>

text \<open>\<^verbatim>\<open>ztd::text::encoding_error\<close>, declared in \<^verbatim>\<open>encoding_error.hpp\<close>.\<close>

datatype encoding_error = ok | invalid_sequence | incomplete_sequence | insufficient_output_space

text \<open>
  The classes \<^verbatim>\<open>__decode_state\<close> and \<^verbatim>\<open>__encode_state\<close> have the same two members; the
  \<^verbatim>\<open>::std::mbstate_t\<close> is opaque to the program and is the type parameter \<open>'st\<close>.
\<close>

record 'st conversion_state =
  narrow_state :: 'st
  output_pending :: bool

type_synonym 'st decode_state = "'st conversion_state"
type_synonym 'st encode_state = "'st conversion_state"

text \<open>
  The C library, which the program calls and does not define:
  \<^item> \<^verbatim>\<open>MB_LEN_MAX\<close>;
  \<^item> \<^verbatim>\<open>c32rtomb(s, c32, ps)\<close>: from the code point and \<^verbatim>\<open>*ps\<close> to the returned
    \<^verbatim>\<open>size_t\<close>, the bytes stored from \<^verbatim>\<open>s[0]\<close> on and the new \<^verbatim>\<open>*ps\<close>;
  \<^item> \<^verbatim>\<open>mbrtoc32(pc32, s, n, ps)\<close>: from the \<open>n\<close> bytes at \<open>s\<close> (\<open>None\<close> for the call with
    \<^verbatim>\<open>nullptr, 0\<close>) and \<^verbatim>\<open>*ps\<close> to the returned \<^verbatim>\<open>size_t\<close>, the value stored in
    \<^verbatim>\<open>*pc32\<close> if one is stored, and the new \<^verbatim>\<open>*ps\<close>;
  \<^item> the value-initialised \<^verbatim>\<open>mbstate_t()\<close> and \<^verbatim>\<open>mbsinit\<close>.
\<close>

record 'st platform =
  MB_LEN_MAX :: nat
  c32rtomb :: "code_point \<Rightarrow> 'st \<Rightarrow> size_t \<times> code_unit list \<times> 'st"
  mbrtoc32 :: "code_unit list option \<Rightarrow> 'st \<Rightarrow> size_t \<times> code_point option \<times> 'st"
  mbstate_zero :: 'st
  mbsinit :: "'st \<Rightarrow> bool"

text \<open>
  An output range \<^verbatim>\<open>[__outit, __outlast)\<close>: the cells of the underlying storage and the
  index of \<^verbatim>\<open>__outit\<close>; \<^verbatim>\<open>__outlast\<close> is the end of the storage. Writing through
  \<^verbatim>\<open>__outit\<close> changes a cell, \<^verbatim>\<open>__next\<close> moves the index. An input range is the list
  of the elements from \<^verbatim>\<open>__init\<close> to \<^verbatim>\<open>__inlast\<close>.
\<close>

record 'a out_range =
  mem :: "'a list"
  pos :: nat

definition range_empty :: "'a out_range \<Rightarrow> bool" where
  "range_empty r = (pos r = length (mem r))"

text \<open>\<^verbatim>\<open>*__outit = v; __outit = __next(__outit)\<close>; \<open>None\<close> when the cell does not exist.\<close>

definition write_next :: "'a out_range \<Rightarrow> 'a \<Rightarrow> 'a out_range option" where
  "write_next r v =
     (if pos r < length (mem r) then Some (r\<lparr>mem := (mem r)[pos r := v], pos := Suc (pos r)\<rparr>)
      else None)"

text \<open>
  \<^verbatim>\<open>::std::span<T>(ptr, count)\<close>: the contents of the array that \<open>ptr\<close> points into, from
  \<open>ptr\<close> to the array's end, and the count. The span's elements are the first \<open>count\<close> of
  them; a count beyond the array's end is a span that reaches past the array.
\<close>

datatype 'a span = Span (span_data: "'a list") (span_size: nat)

definition span_elements :: "'a span \<Rightarrow> 'a list" where
  "span_elements sp = take (span_size sp) (span_data sp)"

definition span_in_bounds :: "'a span \<Rightarrow> bool" where
  "span_in_bounds sp = (span_size sp \<le> length (span_data sp))"

text \<open>\<^verbatim>\<open>encode_result\<close> and \<^verbatim>\<open>decode_result\<close>: \<^verbatim>\<open>_Result(input, output, state, error_code)\<close>.\<close>

record ('i, 'o, 's) result =
  input :: "'i list"
  "output" :: "'o out_range"
  state :: 's
  error_code :: encoding_error

type_synonym 'st encode_result = "(code_point, code_unit, 'st encode_state) result"
type_synonym 'st decode_result = "(code_unit, code_point, 'st decode_state) result"

text \<open>
  An error handler: whether \<^verbatim>\<open>is_ignorable_error_handler_v\<close> holds of its type, and what a
  call \<^verbatim>\<open>__error_handler(__self, result, span)\<close> returns.
\<close>

record ('i, 'o, 's) error_handler =
  ignorable :: bool
  invoke :: "('i, 'o, 's) result \<Rightarrow> 'i span \<Rightarrow> ('i, 'o, 's) result"

text \<open>What C++ leaves undefined, as values of the model.\<close>

datatype undefined_behaviour =
    write_past_output_end      \<comment> \<open>\<^verbatim>\<open>*__outit = ...\<close> with \<^verbatim>\<open>__outit == __outlast\<close>\<close>
  | read_past_input_end        \<comment> \<open>\<^verbatim>\<open>*__init\<close> with \<^verbatim>\<open>__init == __inlast\<close>\<close>
  | read_past_buffer_end       \<comment> \<open>\<^verbatim>\<open>*__intermediary_it\<close> beyond \<^verbatim>\<open>__intermediary_output\<close>\<close>
  | primitive_overran_buffer   \<comment> \<open>\<^verbatim>\<open>c32rtomb\<close> storing more than \<^verbatim>\<open>MB_LEN_MAX\<close> bytes\<close>
  | missing_return             \<comment> \<open>control reaches the end of the function without \<^verbatim>\<open>return\<close>\<close>

text \<open>
  How the body of an operation ends: \<^verbatim>\<open>return _Result(...)\<close>,
  \<^verbatim>\<open>return __error_handler(__self, _Result(...), span)\<close>, or undefined behaviour.
\<close>

datatype ('i, 'o, 's) outcome =
    Returned "('i, 'o, 's) result"
  | Raised "('i, 'o, 's) result" "'i span"
  | Undefined undefined_behaviour

fun finish ::
  "('i, 'o, 's) error_handler \<Rightarrow> ('i, 'o, 's) outcome \<Rightarrow> undefined_behaviour + ('i, 'o, 's) result"
where
  "finish h (Returned r) = Inr r"
| "finish h (Raised r sp) = Inr (invoke h r sp)"
| "finish h (Undefined u) = Inl u"

section \<open>State construction\<close>

text \<open>
  The constructors prime the state with a conversion of the null character and assert the
  outcome; \<open>None\<close> is a failed \<^verbatim>\<open>ZTD_TEXT_ASSERT_I_\<close>.
\<close>

definition new_decode_state :: "'st platform \<Rightarrow> 'st decode_state option" where
  "new_decode_state plat =
     (case mbrtoc32 plat (Some [0]) (mbstate_zero plat) of (init_result, ghost, st) \<Rightarrow>
        if init_result = 0 \<and> (case ghost of None \<Rightarrow> False | Some g \<Rightarrow> g = 0) \<and> mbsinit plat st
        then Some \<lparr>narrow_state = st, output_pending = False\<rparr>
        else None)"

definition new_encode_state :: "'st platform \<Rightarrow> 'st encode_state option" where
  "new_encode_state plat =
     (case c32rtomb plat 0 (mbstate_zero plat) of (init_result, ghost, st) \<Rightarrow>
        if init_result = 1 \<and> (case ghost of [] \<Rightarrow> False | g # _ \<Rightarrow> g = 0) \<and> mbsinit plat st
        then Some \<lparr>narrow_state = st, output_pending = False\<rparr>
        else None)"

section \<open>\<^verbatim>\<open>encode_one\<close>\<close>

text \<open>
  The copy loop, lines 349-364: \<open>buf\<close> is \<^verbatim>\<open>__intermediary_output\<close> from
  \<^verbatim>\<open>__intermediary_it\<close> on, the counter is \<^verbatim>\<open>__res\<close>; \<open>ceh\<close> is \<^verbatim>\<open>__call_error_handler\<close>.
\<close>

fun encode_copy ::
  "bool \<Rightarrow> code_point \<Rightarrow> code_point list \<Rightarrow> 'st encode_state \<Rightarrow> code_unit list \<Rightarrow> nat \<Rightarrow>
   code_unit out_range \<Rightarrow> (code_point, code_unit, 'st encode_state) outcome"
where
  "encode_copy ceh c rest s buf 0 out =
     Returned \<lparr>input = rest, output = out, state = s, error_code = ok\<rparr>"
| "encode_copy ceh c rest s buf (Suc n) out =
     (if ceh \<and> range_empty out
      then Raised \<lparr>input = rest, output = out, state = s,
                   error_code = insufficient_output_space\<rparr> (Span [c] 1)
      else (case buf of
              [] \<Rightarrow> Undefined read_past_buffer_end
            | b # buf' \<Rightarrow>
                (case write_next out b of
                   None \<Rightarrow> Undefined write_past_output_end
                 | Some out' \<Rightarrow> encode_copy ceh c rest s buf' n out')))"

definition encode_one_body ::
  "'st platform \<Rightarrow> bool \<Rightarrow> code_point list \<Rightarrow> code_unit out_range \<Rightarrow> 'st encode_state \<Rightarrow>
   (code_point, code_unit, 'st encode_state) outcome"
where
  "encode_one_body plat ceh inp out s =
     (case inp of
        [] \<Rightarrow> Returned \<lparr>input = inp, output = out, state = s, error_code = ok\<rparr>
      | codepoint # rest \<Rightarrow>
          if ceh \<and> range_empty out
          then Raised \<lparr>input = inp, output = out, state = s,
                       error_code = insufficient_output_space\<rparr> (Span [] 0)
          else (case c32rtomb plat codepoint (narrow_state s) of (res, stored, st') \<Rightarrow>
                  if MB_LEN_MAX plat < length stored then Undefined primitive_overran_buffer
                  else if ceh \<and> res = - 1
                  then Raised \<lparr>input = rest, output = out, state = s\<lparr>narrow_state := st'\<rparr>,
                               error_code = invalid_sequence\<rparr> (Span [codepoint] 1)
                  else encode_copy ceh codepoint rest (s\<lparr>narrow_state := st'\<rparr>)
                         (stored @ replicate (MB_LEN_MAX plat - length stored) 0)
                         (unat res) out))"

definition encode_one ::
  "'st platform \<Rightarrow> (code_point, code_unit, 'st encode_state) error_handler \<Rightarrow> code_point list \<Rightarrow>
   code_unit out_range \<Rightarrow> 'st encode_state \<Rightarrow> undefined_behaviour + 'st encode_result"
where
  "encode_one plat h inp out s = finish h (encode_one_body plat (\<not> ignorable h) inp out s)"

section \<open>\<^verbatim>\<open>decode_one\<close>\<close>

text \<open>
  After the loop, lines 610-626: with \<^verbatim>\<open>__state_offset = MB_LEN_MAX\<close> the count of the span
  is \<^verbatim>\<open>__state_count = MB_LEN_MAX + 1\<close>; without a handler to call the \<^verbatim>\<open>_Result\<close> is
  built and dropped, and the function ends without \<^verbatim>\<open>return\<close>.
\<close>

definition loop_exhausted ::
  "bool \<Rightarrow> nat \<Rightarrow> code_unit list \<Rightarrow> code_unit list \<Rightarrow> code_point out_range \<Rightarrow> 'st decode_state \<Rightarrow>
   (code_unit, code_point, 'st decode_state) outcome"
where
  "loop_exhausted ceh state_offset arr init out s =
     (if ceh
      then Raised \<lparr>input = init, output = out, state = s, error_code = incomplete_sequence\<rparr>
             (Span arr (Suc state_offset))
      else Undefined missing_return)"

text \<open>
  The consume loop, lines 544-609: \<open>arr\<close> is \<^verbatim>\<open>__intermediary_input\<close>, \<open>state_offset\<close>
  the loop variable, \<^verbatim>\<open>__state_count\<close> is \<open>Suc state_offset\<close>. The primitive is called on
  \<^verbatim>\<open>__preserved_state\<close>, the copy of \<^verbatim>\<open>__s.__narrow_state\<close>; \<^verbatim>\<open>__intermediary_output[0]\<close>
  starts as 0.
\<close>

fun decode_consume ::
  "'st platform \<Rightarrow> bool \<Rightarrow> nat \<Rightarrow> code_unit list \<Rightarrow> code_unit list \<Rightarrow> code_point out_range \<Rightarrow>
   'st decode_state \<Rightarrow> (code_unit, code_point, 'st decode_state) outcome"
where
  "decode_consume plat ceh state_offset arr [] out s =
     (if state_offset < MB_LEN_MAX plat then Undefined read_past_input_end
      else loop_exhausted ceh state_offset arr [] out s)"
| "decode_consume plat ceh state_offset arr (u # init) out s =
     (if state_offset < MB_LEN_MAX plat then
        (let arr' = arr[state_offset := u] in
         case mbrtoc32 plat (Some (take (Suc state_offset) arr')) (narrow_state s) of
           (res, stored, preserved_state) \<Rightarrow>
             let c = (case stored of None \<Rightarrow> 0 | Some v \<Rightarrow> v) in
             if res = - 2 then
               (if ceh \<and> init = []
                then Raised \<lparr>input = init, output = out, state = s,
                             error_code = incomplete_sequence\<rparr>
                       (Span arr' (Suc state_offset))
                else decode_consume plat ceh (Suc state_offset) arr' init out s)
             else if res = - 3 then
               (case write_next out c of
                  None \<Rightarrow> Undefined write_past_output_end
                | Some out' \<Rightarrow>
                    Returned \<lparr>input = init, output = out',
                              state = s\<lparr>narrow_state := preserved_state, output_pending := True\<rparr>,
                              error_code = ok\<rparr>)
             else if res = - 1 then
               (if ceh
                then Raised \<lparr>input = init, output = out, state = s,
                             error_code = invalid_sequence\<rparr>
                       (Span arr' (Suc state_offset))
                else decode_consume plat ceh (Suc state_offset) arr' init out s)
             else if res = 0 then
               Returned \<lparr>input = init, output = out, state = s, error_code = ok\<rparr>
             else
               (case write_next out c of
                  None \<Rightarrow> Undefined write_past_output_end
                | Some out' \<Rightarrow>
                    Returned \<lparr>input = init, output = out',
                              state = s\<lparr>narrow_state := preserved_state\<rparr>,
                              error_code = ok\<rparr>))
      else loop_exhausted ceh state_offset arr (u # init) out s)"

text \<open>The drain of a pending code point, lines 517-540: the primitive works on the state itself.\<close>

definition decode_drain ::
  "'st platform \<Rightarrow> bool \<Rightarrow> code_unit list \<Rightarrow> code_point out_range \<Rightarrow> 'st decode_state \<Rightarrow>
   (code_unit, code_point, 'st decode_state) outcome"
where
  "decode_drain plat ceh inp out s =
     (case mbrtoc32 plat None (narrow_state s) of (res, stored, st') \<Rightarrow>
        if ceh \<and> res = - 1
        then Raised \<lparr>input = inp, output = out, state = s\<lparr>narrow_state := st'\<rparr>,
                     error_code = invalid_sequence\<rparr> (Span [] 0)
        else (case write_next out (case stored of None \<Rightarrow> 0 | Some v \<Rightarrow> v) of
                None \<Rightarrow> Undefined write_past_output_end
              | Some out' \<Rightarrow>
                  Returned \<lparr>input = inp, output = out',
                            state = s\<lparr>narrow_state := st', output_pending := (res = - 3)\<rparr>,
                            error_code = ok\<rparr>))"

definition decode_one_body ::
  "'st platform \<Rightarrow> bool \<Rightarrow> code_unit list \<Rightarrow> code_point out_range \<Rightarrow> 'st decode_state \<Rightarrow>
   (code_unit, code_point, 'st decode_state) outcome"
where
  "decode_one_body plat ceh inp out s =
     (if inp = [] then Returned \<lparr>input = inp, output = out, state = s, error_code = ok\<rparr>
      else if ceh \<and> range_empty out
      then Raised \<lparr>input = inp, output = out, state = s,
                   error_code = insufficient_output_space\<rparr> (Span [] 0)
      else if output_pending s then decode_drain plat ceh inp out s
      else decode_consume plat ceh 0 (replicate (MB_LEN_MAX plat) 0) inp out s)"

definition decode_one ::
  "'st platform \<Rightarrow> (code_unit, code_point, 'st decode_state) error_handler \<Rightarrow> code_unit list \<Rightarrow>
   code_point out_range \<Rightarrow> 'st decode_state \<Rightarrow> undefined_behaviour + 'st decode_result"
where
  "decode_one plat h inp out s = finish h (decode_one_body plat (\<not> ignorable h) inp out s)"

section \<open>Concrete inputs\<close>

text \<open>
  A platform to run the operations on. Code points below \<open>0x80\<close> are one byte, code points
  below \<open>0x800\<close> are a lead byte \<open>0xC2..0xDF\<close> and a trail byte \<open>0x80..0xBF\<close>, every other
  code point has no representation. The byte \<open>0xFF\<close> stands for the three code points
  \<open>0x41, 0x42, 0x43\<close>: the first comes with the result \<open>- 3\<close>, the others wait in the
  \<^verbatim>\<open>mbstate_t\<close>. The call with \<^verbatim>\<open>nullptr, 0\<close> is the call ISO C 7.28.1.3 describes: it
  ignores \<^verbatim>\<open>pc32\<close> and stores nothing; it returns \<open>- 3\<close> and moves on by one code point
  when one waits, and returns \<open>0\<close> in the initial state.
  As the constructors assert, the null byte gives the result \<open>0\<close> and the null code point
  gives one null byte.
\<close>

definition sample_c32rtomb :: "code_point \<Rightarrow> code_point list \<Rightarrow> size_t \<times> code_unit list \<times> code_point list" where
  "sample_c32rtomb c st =
     (if c < 0x80 then (1, [ucast c], st)
      else if c < 0x800 then (2, [0xC0 + ucast (c div 64), 0x80 + ucast (c mod 64)], st)
      else (- 1, [], st))"

fun sample_mbrtoc32 :: "code_unit list option \<Rightarrow> code_point list \<Rightarrow> size_t \<times> code_point option \<times> code_point list" where
  "sample_mbrtoc32 None [] = (0, None, [])"
| "sample_mbrtoc32 None (c # st) = (- 3, None, st)"
| "sample_mbrtoc32 (Some [b]) st =
     (if b = 0 then (0, Some 0, st)
      else if b < 0x80 then (1, Some (ucast b), st)
      else if 0xC2 \<le> b \<and> b \<le> 0xDF then (- 2, None, st)
      else if b = 0xFF then (- 3, Some 0x41, [0x42, 0x43])
      else (- 1, None, st))"
| "sample_mbrtoc32 (Some [b1, b2]) st =
     (if 0xC2 \<le> b1 \<and> b1 \<le> 0xDF \<and> 0x80 \<le> b2 \<and> b2 \<le> 0xBF
      then (2, Some (ucast (b1 - 0xC0) * 64 + ucast (b2 - 0x80)), st)
      else (- 1, None, st))"
| "sample_mbrtoc32 (Some bs) st = (- 1, None, st)"

definition sample_platform :: "code_point list platform" where
  "sample_platform =
     \<lparr>MB_LEN_MAX = 16, c32rtomb = sample_c32rtomb, mbrtoc32 = sample_mbrtoc32,
      mbstate_zero = [], mbsinit = (\<lambda>st. st = [])\<rparr>"

definition pass_through_handler :: "('i, 'o, 's) error_handler" where
  "pass_through_handler = \<lparr>ignorable = False, invoke = (\<lambda>r sp. r)\<rparr>"

definition assume_valid_handler :: "('i, 'o, 's) error_handler" where
  "assume_valid_handler = \<lparr>ignorable = True, invoke = (\<lambda>r sp. r)\<rparr>"

text \<open>
  A second platform, whose \<^verbatim>\<open>mbrtoc32\<close> leaves a trace of every call in the \<^verbatim>\<open>mbstate_t\<close> it
  is given: the state counts the units that the calls have read. It classifies the units as
  the sample platform does. The third platform agrees with it in the state \<open>0\<close> and
  fails in every other state.
\<close>

definition counting_mbrtoc32 :: "code_unit list option \<Rightarrow> nat \<Rightarrow> size_t \<times> code_point option \<times> nat" where
  "counting_mbrtoc32 bs n =
     (case bs of
        None \<Rightarrow> (0, None, 0)
      | Some units \<Rightarrow>
          (case sample_mbrtoc32 (Some units) [] of
             (res, stored, waiting) \<Rightarrow> (res, stored, n + length units)))"

definition counting_c32rtomb :: "code_point \<Rightarrow> nat \<Rightarrow> size_t \<times> code_unit list \<times> nat" where
  "counting_c32rtomb c n = (case sample_c32rtomb c [] of (res, stored, waiting) \<Rightarrow> (res, stored, n))"

definition counting_platform :: "nat platform" where
  "counting_platform =
     \<lparr>MB_LEN_MAX = 16, c32rtomb = counting_c32rtomb, mbrtoc32 = counting_mbrtoc32,
      mbstate_zero = 0, mbsinit = (\<lambda>n. n = 0)\<rparr>"

definition initial_only_platform :: "nat platform" where
  "initial_only_platform =
     \<lparr>MB_LEN_MAX = 16, c32rtomb = counting_c32rtomb,
      mbrtoc32 = (\<lambda>bs n. if n = 0 then counting_mbrtoc32 bs n else (- 1, None, n)),
      mbstate_zero = 0, mbsinit = (\<lambda>n. n = 0)\<rparr>"

section \<open>Evaluation and loop lemmas\<close>

lemma encode_copy_numeral:
  "encode_copy ceh c rest s buf (numeral k) out =
     (if ceh \<and> range_empty out
      then Raised \<lparr>input = rest, output = out, state = s,
                   error_code = insufficient_output_space\<rparr> (Span [c] 1)
      else (case buf of
              [] \<Rightarrow> Undefined read_past_buffer_end
            | b # buf' \<Rightarrow>
                (case write_next out b of
                   None \<Rightarrow> Undefined write_past_output_end
                 | Some out' \<Rightarrow> encode_copy ceh c rest s buf' (pred_numeral k) out')))"
  by (simp add: numeral_eq_Suc)

lemma unat_size_max: "unat (- 1 :: size_t) = 18446744073709551615"
  by (simp add: unsigned_minus_1_eq_mask mask_eq_exp_minus_1)

lemma replicate_numeral: "replicate (numeral k) x = x # replicate (pred_numeral k) x"
  by (simp add: numeral_eq_Suc)

lemma list_update_numeral: "(x # xs)[numeral k := y] = x # xs[pred_numeral k := y]"
  by (simp add: numeral_eq_Suc)

lemmas sample_defs = sample_platform_def sample_c32rtomb_def pass_through_handler_def
  assume_valid_handler_def range_empty_def write_next_def

lemma take_Suc_update: "p < length xs \<Longrightarrow> take (Suc p) (xs[p := b]) = take p xs @ [b]"
  by (simp add: take_Suc_conv_app_nth)

lemma encode_copy_out_of_space:
  "pos out + k = length (mem out) \<Longrightarrow> k < n \<Longrightarrow> k \<le> length buf \<Longrightarrow>
   encode_copy True c rest s buf n out =
     Raised \<lparr>input = rest,
             output = \<lparr>mem = take (pos out) (mem out) @ take k buf, pos = length (mem out)\<rparr>,
             state = s, error_code = insufficient_output_space\<rparr> (Span [c] 1)"
proof (induction k arbitrary: buf n out)
  case 0
  then obtain m where n: "n = Suc m" by (cases n) auto
  from 0 show ?case by (simp add: n range_empty_def)
next
  case (Suc k)
  then obtain m where n: "n = Suc m" by (cases n) auto
  from Suc.prems obtain b buf' where buf: "buf = b # buf'" by (cases buf) auto
  let ?out' = "out\<lparr>mem := (mem out)[pos out := b], pos := Suc (pos out)\<rparr>"
  from Suc.prems have lt: "pos out < length (mem out)" by simp
  have w: "write_next out b = Some ?out'" using lt by (simp add: write_next_def)
  have ne: "\<not> range_empty out" using lt by (simp add: range_empty_def)
  have ih: "encode_copy True c rest s buf' m ?out' =
     Raised \<lparr>input = rest,
             output = \<lparr>mem = take (pos ?out') (mem ?out') @ take k buf', pos = length (mem ?out')\<rparr>,
             state = s, error_code = insufficient_output_space\<rparr> (Span [c] 1)"
    using Suc.prems by (intro Suc.IH) (simp_all add: n buf)
  show ?case using lt by (simp add: n buf w ne ih take_Suc_update)
qed

lemma encode_copy_Returned_ok:
  "encode_copy ceh c rest s buf n out = Returned r \<Longrightarrow> error_code r = ok"
  by (induction ceh c rest s buf n out rule: encode_copy.induct)
     (auto split: if_splits list.splits option.splits)

lemma encode_copy_not_Raised:
  "encode_copy False c rest s buf n out \<noteq> Raised r sp"
  by (induction "False" c rest s buf n out rule: encode_copy.induct)
     (auto split: if_splits list.splits option.splits)

lemma decode_consume_Raised_state:
  "decode_consume plat ceh off arr init out s = Raised r sp \<Longrightarrow> state r = s"
  by (induction plat ceh off arr init out s rule: decode_consume.induct)
     (auto simp: loop_exhausted_def Let_def split: if_splits prod.splits option.splits)

lemma decode_consume_Returned:
  "decode_consume plat ceh off arr init out s = Returned r \<Longrightarrow>
   error_code r = ok \<and>
   (narrow_state (state r) = narrow_state s \<or> pos (output r) = Suc (pos out))"
  by (induction plat ceh off arr init out s rule: decode_consume.induct)
     (auto simp: loop_exhausted_def Let_def write_next_def split: if_splits prod.splits option.splits)

lemma decode_consume_not_Raised:
  "decode_consume plat False off arr init out s \<noteq> Raised r sp"
  by (induction plat "False" off arr init out s rule: decode_consume.induct)
     (auto simp: loop_exhausted_def Let_def split: if_splits prod.splits option.splits)

lemma decode_drain_Returned_ok:
  "decode_drain plat ceh inp out s = Returned r \<Longrightarrow> error_code r = ok"
  by (auto simp: decode_drain_def split: if_splits prod.splits option.splits)

lemma decode_drain_not_Raised:
  "decode_drain plat False inp out s \<noteq> Raised r sp"
  by (auto simp: decode_drain_def split: if_splits prod.splits option.splits)

lemma encode_copy_all:
  "n \<le> length buf \<Longrightarrow> pos out + n \<le> length (mem out) \<Longrightarrow>
   encode_copy ceh c rest s buf n out =
     Returned \<lparr>input = rest,
               output = \<lparr>mem = take (pos out) (mem out) @ take n buf @ drop (pos out + n) (mem out),
                         pos = pos out + n\<rparr>,
               state = s, error_code = ok\<rparr>"
proof (induction n arbitrary: buf out)
  case 0
  then show ?case by simp
next
  case (Suc n)
  from Suc.prems obtain b buf' where buf: "buf = b # buf'" by (cases buf) auto
  let ?out' = "out\<lparr>mem := (mem out)[pos out := b], pos := Suc (pos out)\<rparr>"
  from Suc.prems have lt: "pos out < length (mem out)" by simp
  have w: "write_next out b = Some ?out'" using lt by (simp add: write_next_def)
  have ne: "\<not> range_empty out" using lt by (simp add: range_empty_def)
  have ih: "encode_copy ceh c rest s buf' n ?out' =
     Returned \<lparr>input = rest,
               output = \<lparr>mem = take (pos ?out') (mem ?out') @ take n buf' @ drop (pos ?out' + n) (mem ?out'),
                         pos = pos ?out' + n\<rparr>,
               state = s, error_code = ok\<rparr>"
    using Suc.prems by (intro Suc.IH) (simp_all add: buf)
  show ?case using lt by (simp add: buf w ne ih take_Suc_update)
qed

lemma decode_consume_resolves:
  assumes "length arr = MB_LEN_MAX plat" and "off + length bs \<le> MB_LEN_MAX plat" and "bs \<noteq> []"
    and "\<forall>k. 0 < k \<and> k < length bs \<longrightarrow>
           fst (mbrtoc32 plat (Some (take off arr @ take k bs)) (narrow_state s)) = - 2"
    and "mbrtoc32 plat (Some (take off arr @ bs)) (narrow_state s) = (res, Some c, st')"
    and "res \<noteq> - 1" and "res \<noteq> - 2" and "res \<noteq> - 3" and "res \<noteq> 0"
    and "pos out < length (mem out)"
  shows "decode_consume plat ceh off arr (bs @ rest) out s =
           Returned \<lparr>input = rest,
                     output = out\<lparr>mem := (mem out)[pos out := c], pos := Suc (pos out)\<rparr>,
                     state = s\<lparr>narrow_state := st'\<rparr>, error_code = ok\<rparr>"
  using assms
proof (induction bs arbitrary: off arr)
  case Nil
  then show ?case by simp
next
  case (Cons u bs)
  from Cons.prems have off: "off < MB_LEN_MAX plat" "off < length arr" by simp_all
  have tk: "take (Suc off) (arr[off := u]) = take off arr @ [u]"
    using off by (simp add: take_Suc_update)
  show ?case
  proof (cases bs)
    case Nil
    with Cons.prems off tk show ?thesis by (simp add: write_next_def)
  next
    case (Cons b2 bs')
    have first: "fst (mbrtoc32 plat (Some (take off arr @ [u])) (narrow_state s)) = - 2"
      using Cons.prems(4) [rule_format, of 1] Cons by simp
    have ih: "decode_consume plat ceh (Suc off) (arr[off := u]) (bs @ rest) out s =
           Returned \<lparr>input = rest,
                     output = out\<lparr>mem := (mem out)[pos out := c], pos := Suc (pos out)\<rparr>,
                     state = s\<lparr>narrow_state := st'\<rparr>, error_code = ok\<rparr>"
    proof (rule Cons.IH)
      show "length (arr[off := u]) = MB_LEN_MAX plat" using Cons.prems(1) by simp
      show "Suc off + length bs \<le> MB_LEN_MAX plat" using Cons.prems(2) by simp
      show "bs \<noteq> []" using Cons by simp
      show "\<forall>k. 0 < k \<and> k < length bs \<longrightarrow>
           fst (mbrtoc32 plat (Some (take (Suc off) (arr[off := u]) @ take k bs)) (narrow_state s)) = - 2"
      proof (intro allI impI)
        fix k assume "0 < k \<and> k < length bs"
        then have "fst (mbrtoc32 plat (Some (take off arr @ take (Suc k) (u # bs))) (narrow_state s)) = - 2"
          using Cons.prems(4) [rule_format, of "Suc k"] by simp
        then show "fst (mbrtoc32 plat (Some (take (Suc off) (arr[off := u]) @ take k bs)) (narrow_state s)) = - 2"
          by (simp add: tk)
      qed
      show "mbrtoc32 plat (Some (take (Suc off) (arr[off := u]) @ bs)) (narrow_state s) = (res, Some c, st')"
        using Cons.prems(5) by (simp add: tk)
    qed (use Cons.prems in simp_all)
    obtain r w p where m: "mbrtoc32 plat (Some (take off arr @ [u])) (narrow_state s) = (r, w, p)"
      by (cases "mbrtoc32 plat (Some (take off arr @ [u])) (narrow_state s)")
    with first have r: "r = - 2" by simp
    have ne: "bs @ rest \<noteq> []" using Cons by simp
    show ?thesis using off ne by (simp add: tk m r ih Let_def)
  qed
qed

lemma decode_consume_same_calls:
  assumes "MB_LEN_MAX plat' = MB_LEN_MAX plat"
    and "\<forall>bs. mbrtoc32 plat' (Some bs) (narrow_state s) = mbrtoc32 plat (Some bs) (narrow_state s)"
  shows "decode_consume plat' ceh off arr init out s = decode_consume plat ceh off arr init out s"
  using assms
  by (induction init arbitrary: off arr) (auto simp: Let_def split: prod.splits)

lemma decode_consume_commits_copy:
  assumes "decode_consume plat ceh off arr init out s = Returned r"
    and "length arr = MB_LEN_MAX plat"
  shows "state r = s \<or>
         (\<exists>n res stored st'. 0 < n \<and> n \<le> length init \<and> input r = drop n init \<and>
            mbrtoc32 plat (Some (take off arr @ take n init)) (narrow_state s) = (res, stored, st') \<and>
            res \<noteq> - 1 \<and> res \<noteq> - 2 \<and> res \<noteq> 0 \<and>
            state r = s\<lparr>narrow_state := st', output_pending := (res = - 3 \<or> output_pending s)\<rparr>)"
  using assms
proof (induction init arbitrary: off arr)
  case Nil
  then show ?case by (simp add: loop_exhausted_def split: if_splits)
next
  case (Cons u init)
  show ?case
  proof (cases "off < MB_LEN_MAX plat")
    case False
    with Cons.prems show ?thesis by (simp add: loop_exhausted_def split: if_splits)
  next
    case True
    then have tk: "take (Suc off) (arr[off := u]) = take off arr @ [u]"
      using Cons.prems(2) by (simp add: take_Suc_update)
    obtain res stored st' where
      m: "mbrtoc32 plat (Some (take off arr @ [u])) (narrow_state s) = (res, stored, st')"
      by (cases "mbrtoc32 plat (Some (take off arr @ [u])) (narrow_state s)")
    consider (more) "res = - 2 \<or> res = - 1" | (null) "res = 0"
      | (resolved) "res \<noteq> - 2" "res \<noteq> - 1" "res \<noteq> 0" by blast
    then show ?thesis
    proof cases
      case more
      then have rec: "decode_consume plat ceh (Suc off) (arr[off := u]) init out s = Returned r"
        using Cons.prems(1) True by (auto simp: tk m Let_def split: if_splits)
      have "state r = s \<or>
         (\<exists>n res stored st'. 0 < n \<and> n \<le> length init \<and> input r = drop n init \<and>
            mbrtoc32 plat (Some (take (Suc off) (arr[off := u]) @ take n init)) (narrow_state s)
              = (res, stored, st') \<and>
            res \<noteq> - 1 \<and> res \<noteq> - 2 \<and> res \<noteq> 0 \<and>
            state r = s\<lparr>narrow_state := st', output_pending := (res = - 3 \<or> output_pending s)\<rparr>)"
        using rec Cons.prems(2) by (intro Cons.IH) simp_all
      then show ?thesis
      proof
        assume "state r = s" then show ?thesis by simp
      next
        assume "\<exists>n res stored st'. 0 < n \<and> n \<le> length init \<and> input r = drop n init \<and>
            mbrtoc32 plat (Some (take (Suc off) (arr[off := u]) @ take n init)) (narrow_state s)
              = (res, stored, st') \<and>
            res \<noteq> - 1 \<and> res \<noteq> - 2 \<and> res \<noteq> 0 \<and>
            state r = s\<lparr>narrow_state := st', output_pending := (res = - 3 \<or> output_pending s)\<rparr>"
        then obtain n res2 stored2 st2 where
          n: "0 < n" "n \<le> length init" "input r = drop n init"
            "mbrtoc32 plat (Some (take (Suc off) (arr[off := u]) @ take n init)) (narrow_state s)
              = (res2, stored2, st2)"
            "res2 \<noteq> - 1" "res2 \<noteq> - 2" "res2 \<noteq> 0"
            "state r = s\<lparr>narrow_state := st2, output_pending := (res2 = - 3 \<or> output_pending s)\<rparr>"
          by blast
        have "0 < Suc n \<and> Suc n \<le> length (u # init) \<and> input r = drop (Suc n) (u # init) \<and>
            mbrtoc32 plat (Some (take off arr @ take (Suc n) (u # init))) (narrow_state s)
              = (res2, stored2, st2) \<and>
            res2 \<noteq> - 1 \<and> res2 \<noteq> - 2 \<and> res2 \<noteq> 0 \<and>
            state r = s\<lparr>narrow_state := st2, output_pending := (res2 = - 3 \<or> output_pending s)\<rparr>"
          using n by (simp add: tk)
        then show ?thesis by blast
      qed
    next
      case null
      then have "state r = s" using Cons.prems(1) True by (auto simp: tk m Let_def)
      then show ?thesis by simp
    next
      case resolved
      then have "0 < Suc 0 \<and> Suc 0 \<le> length (u # init) \<and> input r = drop (Suc 0) (u # init) \<and>
            mbrtoc32 plat (Some (take off arr @ take (Suc 0) (u # init))) (narrow_state s)
              = (res, stored, st') \<and>
            res \<noteq> - 1 \<and> res \<noteq> - 2 \<and> res \<noteq> 0 \<and>
            state r = s\<lparr>narrow_state := st', output_pending := (res = - 3 \<or> output_pending s)\<rparr>"
        using Cons.prems(1) True
        by (auto simp: tk m Let_def split: if_splits option.splits)
      then show ?thesis by blast
    qed
  qed
qed

lemma decode_drain_result:
  assumes "output_pending s" and "inp \<noteq> []" and "pos out < length (mem out)"
    and "mbrtoc32 plat None (narrow_state s) = (res, stored, st')"
    and "ignorable h \<or> res \<noteq> - 1"
  shows "decode_one plat h inp out s =
           Inr \<lparr>input = inp,
                output = out\<lparr>mem := (mem out)[pos out := (case stored of None \<Rightarrow> 0 | Some v \<Rightarrow> v)],
                             pos := Suc (pos out)\<rparr>,
                state = s\<lparr>narrow_state := st', output_pending := (res = - 3)\<rparr>,
                error_code = ok\<rparr>"
  using assms
  by (auto simp add: decode_one_def decode_one_body_def decode_drain_def write_next_def range_empty_def)

section \<open>Round trip\<close>

text \<open>
  C1, at the null code point, which the sample platform represents as the constructors assert
  every platform does: with fresh states \<^verbatim>\<open>encode_one\<close> turns \<open>U+0000\<close> into the one unit
  \<open>0\<close> and returns \<open>ok\<close>; \<^verbatim>\<open>decode_one\<close> on that unit consumes it and returns \<open>ok\<close>, and
  writes nothing: the output range still starts at the cell it started at, and the cell
  holds what it held. The code point does not come back.
\<close>

theorem round_trip_loses_null_code_point:
  "new_encode_state sample_platform = Some \<lparr>narrow_state = [], output_pending = False\<rparr> \<and>
   new_decode_state sample_platform = Some \<lparr>narrow_state = [], output_pending = False\<rparr> \<and>
   encode_one sample_platform pass_through_handler [0] \<lparr>mem = [0x55], pos = 0\<rparr>
       \<lparr>narrow_state = [], output_pending = False\<rparr> =
     Inr \<lparr>input = [], output = \<lparr>mem = [0], pos = 1\<rparr>,
          state = \<lparr>narrow_state = [], output_pending = False\<rparr>, error_code = ok\<rparr> \<and>
   decode_one sample_platform pass_through_handler [0] \<lparr>mem = [0xFFFD], pos = 0\<rparr>
       \<lparr>narrow_state = [], output_pending = False\<rparr> =
     Inr \<lparr>input = [], output = \<lparr>mem = [0xFFFD], pos = 0\<rparr>,
          state = \<lparr>narrow_state = [], output_pending = False\<rparr>, error_code = ok\<rparr>"
  by (simp add: new_encode_state_def new_decode_state_def encode_one_def encode_one_body_def
        decode_one_def decode_one_body_def sample_defs Let_def replicate_numeral)

text \<open>
  What does hold of the round trip: when \<^verbatim>\<open>c32rtomb\<close> gives a non-empty run of units for
  the code point, the output has room for them, and \<^verbatim>\<open>mbrtoc32\<close> asks for more on every
  proper prefix of the run and gives the code point, with a result other than \<open>0\<close> and the
  three negative results, on the whole run, then \<^verbatim>\<open>encode_one\<close> writes the run and
  \<^verbatim>\<open>decode_one\<close> on the run writes the code point, both with \<open>ok\<close>. The result \<open>0\<close>, the
  null character, is the case left out.
\<close>

lemma round_trip_when_not_null:
  assumes "c32rtomb plat c (narrow_state es) = (n, bytes, est')"
    and "n \<noteq> - 1" and "unat n = length bytes"
    and "bytes \<noteq> []" and "length bytes \<le> MB_LEN_MAX plat"
    and "pos eout + length bytes \<le> length (mem eout)"
    and "\<not> output_pending ds"
    and "\<forall>k. 0 < k \<and> k < length bytes \<longrightarrow>
           fst (mbrtoc32 plat (Some (take k bytes)) (narrow_state ds)) = - 2"
    and "mbrtoc32 plat (Some bytes) (narrow_state ds) = (res, Some c, dst')"
    and "res \<noteq> - 1" and "res \<noteq> - 2" and "res \<noteq> - 3" and "res \<noteq> 0"
    and "pos dout < length (mem dout)"
  shows "encode_one plat h_enc [c] eout es =
           Inr \<lparr>input = [],
                output = \<lparr>mem = take (pos eout) (mem eout) @ bytes @
                                 drop (pos eout + length bytes) (mem eout),
                          pos = pos eout + length bytes\<rparr>,
                state = es\<lparr>narrow_state := est'\<rparr>, error_code = ok\<rparr>
         \<and> decode_one plat h_dec bytes dout ds =
           Inr \<lparr>input = [],
                output = dout\<lparr>mem := (mem dout)[pos dout := c], pos := Suc (pos dout)\<rparr>,
                state = ds\<lparr>narrow_state := dst'\<rparr>, error_code = ok\<rparr>"
proof -
  let ?buf = "bytes @ replicate (MB_LEN_MAX plat - length bytes) 0"
  have ne: "\<not> range_empty eout" using assms(4,6) by (auto simp: range_empty_def)
  have "encode_copy (\<not> ignorable h_enc) c [] (es\<lparr>narrow_state := est'\<rparr>) ?buf (length bytes) eout =
     Returned \<lparr>input = [],
               output = \<lparr>mem = take (pos eout) (mem eout) @ take (length bytes) ?buf @
                                drop (pos eout + length bytes) (mem eout),
                         pos = pos eout + length bytes\<rparr>,
               state = es\<lparr>narrow_state := est'\<rparr>, error_code = ok\<rparr>"
    using assms(6) by (intro encode_copy_all) simp_all
  then have enc: "encode_one plat h_enc [c] eout es =
           Inr \<lparr>input = [],
                output = \<lparr>mem = take (pos eout) (mem eout) @ bytes @
                                 drop (pos eout + length bytes) (mem eout),
                          pos = pos eout + length bytes\<rparr>,
                state = es\<lparr>narrow_state := est'\<rparr>, error_code = ok\<rparr>"
    using assms(1,2,3,5) ne by (simp add: encode_one_def encode_one_body_def)
  have "decode_consume plat (\<not> ignorable h_dec) 0 (replicate (MB_LEN_MAX plat) 0) (bytes @ []) dout ds =
           Returned \<lparr>input = [],
                     output = dout\<lparr>mem := (mem dout)[pos dout := c], pos := Suc (pos dout)\<rparr>,
                     state = ds\<lparr>narrow_state := dst'\<rparr>, error_code = ok\<rparr>"
    using assms(4,5,8-14) by (intro decode_consume_resolves) simp_all
  then have dec: "decode_one plat h_dec bytes dout ds =
           Inr \<lparr>input = [],
                output = dout\<lparr>mem := (mem dout)[pos dout := c], pos := Suc (pos dout)\<rparr>,
                state = ds\<lparr>narrow_state := dst'\<rparr>, error_code = ok\<rparr>"
    using assms(4,7,14) by (simp add: decode_one_def decode_one_body_def range_empty_def)
  from enc dec show ?thesis by simp
qed

text \<open>The code point \<open>U+00E9\<close> on the sample platform.\<close>

lemma round_trip_when_not_null_witness:
  "encode_one sample_platform pass_through_handler [0xE9] \<lparr>mem = [1, 1, 1], pos = 0\<rparr>
       \<lparr>narrow_state = [], output_pending = False\<rparr> =
     Inr \<lparr>input = [], output = \<lparr>mem = [0xC3, 0xA9, 1], pos = 2\<rparr>,
          state = \<lparr>narrow_state = [], output_pending = False\<rparr>, error_code = ok\<rparr>
   \<and> decode_one sample_platform pass_through_handler [0xC3, 0xA9] \<lparr>mem = [0xFFFD], pos = 0\<rparr>
       \<lparr>narrow_state = [], output_pending = False\<rparr> =
     Inr \<lparr>input = [], output = \<lparr>mem = [0xE9], pos = 1\<rparr>,
          state = \<lparr>narrow_state = [], output_pending = False\<rparr>, error_code = ok\<rparr>"
proof -
  let ?s = "\<lparr>narrow_state = [] :: code_point list, output_pending = False\<rparr>"
  let ?eout = "\<lparr>mem = [1, 1, 1 :: code_unit], pos = 0\<rparr>"
  let ?dout = "\<lparr>mem = [0xFFFD :: code_point], pos = 0\<rparr>"
  have h1: "c32rtomb sample_platform 0xE9 (narrow_state ?s) = (2, [0xC3, 0xA9], [])"
    by (simp add: sample_platform_def sample_c32rtomb_def)
  have h8: "\<forall>k. 0 < k \<and> k < length [0xC3, 0xA9 :: code_unit] \<longrightarrow>
           fst (mbrtoc32 sample_platform (Some (take k [0xC3, 0xA9])) (narrow_state ?s)) = - 2"
  proof (intro allI impI)
    fix k :: nat assume "0 < k \<and> k < length [0xC3, 0xA9 :: code_unit]"
    then have "k = 1" by simp
    then show "fst (mbrtoc32 sample_platform (Some (take k [0xC3, 0xA9])) (narrow_state ?s)) = - 2"
      by (simp add: sample_platform_def)
  qed
  have h9: "mbrtoc32 sample_platform (Some [0xC3, 0xA9]) (narrow_state ?s) = (2, Some 0xE9, [])"
    by (simp add: sample_platform_def)
  from round_trip_when_not_null [of sample_platform "0xE9" ?s 2 "[0xC3, 0xA9]" "[]" ?eout ?s 2 "[]" ?dout
         pass_through_handler pass_through_handler, OF h1 _ _ _ _ _ _ h8 h9]
  show ?thesis by (simp add: sample_platform_def)
qed

section \<open>The drain of a pending code point\<close>

text \<open>
  C2, on the sample platform. The byte \<open>0xFF\<close> makes \<^verbatim>\<open>decode_one\<close> write the first of its
  code points and leave the state with \<open>output_pending\<close> set and \<open>0x42, 0x43\<close> waiting. The
  next call consumes no input unit, sets the flag by whether the probe returned \<open>- 3\<close> and
  returns \<open>ok\<close>; but the probe, called with \<^verbatim>\<open>nullptr\<close>, stores nothing, and what the call
  writes to the output is the zero that \<^verbatim>\<open>__intermediary_output[0]\<close> was initialised with:
  the code point \<open>0x42\<close> that waited is gone from the state and is not in the output.
\<close>

theorem pending_drain_writes_null_code_point:
  "decode_one sample_platform pass_through_handler [0xFF, 0x41] \<lparr>mem = [0xFFFD, 0xFFFD], pos = 0\<rparr>
       \<lparr>narrow_state = [], output_pending = False\<rparr> =
     Inr \<lparr>input = [0x41], output = \<lparr>mem = [0x41, 0xFFFD], pos = 1\<rparr>,
          state = \<lparr>narrow_state = [0x42, 0x43], output_pending = True\<rparr>, error_code = ok\<rparr>
   \<and> mbrtoc32 sample_platform None [0x42, 0x43] = (- 3, None, [0x43])
   \<and> decode_one sample_platform pass_through_handler [0x41] \<lparr>mem = [0x41, 0xFFFD], pos = 1\<rparr>
       \<lparr>narrow_state = [0x42, 0x43], output_pending = True\<rparr> =
     Inr \<lparr>input = [0x41], output = \<lparr>mem = [0x41, 0], pos = 2\<rparr>,
          state = \<lparr>narrow_state = [0x43], output_pending = True\<rparr>, error_code = ok\<rparr>"
  by (simp add: decode_one_def decode_one_body_def decode_drain_def sample_defs Let_def
        replicate_numeral)

section \<open>The consume loop and the caller's state\<close>

text \<open>
  C3: when \<open>output_pending\<close> is not set, so that the call runs the consume loop,
  \<^item> every result handed to the error handler (\<open>incomplete_sequence\<close> and \<open>invalid_sequence\<close>
    from the loop among them) carries the state the caller passed in, unchanged;
  \<^item> a returned result whose shift state differs from the caller's is a success that wrote
    one code point to the output;
  \<^item> the state of a returned result is the caller's, or it is the caller's with the shift
    state replaced by the one that a single call of the primitive, on the units consumed
    and on the caller's shift state, left in its copy, a call that reported neither
    incomplete nor invalid nor the null character;
  \<^item> every call of the primitive is made on the caller's shift state: a platform that
    agrees with this one in that state, whatever it does in other states, gives the same
    outcome.
\<close>

theorem consume_loop_commits_on_success_only:
  fixes plat :: "'st platform"
  assumes "\<not> output_pending s"
  shows "(\<forall>r sp. decode_one_body plat ceh inp out s = Raised r sp \<longrightarrow> state r = s) \<and>
         (\<forall>r. decode_one_body plat ceh inp out s = Returned r \<longrightarrow>
                narrow_state (state r) \<noteq> narrow_state s \<longrightarrow>
                error_code r = ok \<and> pos (output r) = Suc (pos out)) \<and>
         (\<forall>r. decode_one_body plat ceh inp out s = Returned r \<longrightarrow>
                state r = s \<or>
                (\<exists>n res stored st'. 0 < n \<and> n \<le> length inp \<and> input r = drop n inp \<and>
                   mbrtoc32 plat (Some (take n inp)) (narrow_state s) = (res, stored, st') \<and>
                   res \<noteq> - 1 \<and> res \<noteq> - 2 \<and> res \<noteq> 0 \<and>
                   state r = s\<lparr>narrow_state := st', output_pending := (res = - 3)\<rparr>)) \<and>
         (\<forall>plat'. MB_LEN_MAX plat' = MB_LEN_MAX plat \<and>
                (\<forall>bs. mbrtoc32 plat' (Some bs) (narrow_state s) =
                       mbrtoc32 plat (Some bs) (narrow_state s)) \<longrightarrow>
                decode_one_body plat' ceh inp out s = decode_one_body plat ceh inp out s)"
proof -
  have a: "state r = s" if "decode_one_body plat ceh inp out s = Raised r sp" for r sp
    using that assms
    by (auto simp: decode_one_body_def dest: decode_consume_Raised_state split: if_splits)
  have b: "error_code r = ok \<and> pos (output r) = Suc (pos out)"
    if "decode_one_body plat ceh inp out s = Returned r"
      and "narrow_state (state r) \<noteq> narrow_state s" for r
    using that assms
    by (auto simp: decode_one_body_def dest: decode_consume_Returned split: if_splits)
  have c: "state r = s \<or>
            (\<exists>n res stored st'. 0 < n \<and> n \<le> length inp \<and> input r = drop n inp \<and>
               mbrtoc32 plat (Some (take n inp)) (narrow_state s) = (res, stored, st') \<and>
               res \<noteq> - 1 \<and> res \<noteq> - 2 \<and> res \<noteq> 0 \<and>
               state r = s\<lparr>narrow_state := st', output_pending := (res = - 3)\<rparr>)"
    if ret: "decode_one_body plat ceh inp out s = Returned r" for r
  proof (cases "inp = [] \<or> (ceh \<and> range_empty out)")
    case True
    with ret show ?thesis by (auto simp: decode_one_body_def split: if_splits)
  next
    case False
    with ret assms have
      "decode_consume plat ceh 0 (replicate (MB_LEN_MAX plat) 0) inp out s = Returned r"
      by (auto simp: decode_one_body_def split: if_splits)
    from decode_consume_commits_copy [OF this] assms show ?thesis by simp
  qed
  have d: "decode_one_body plat' ceh inp out s = decode_one_body plat ceh inp out s"
    if "MB_LEN_MAX plat' = MB_LEN_MAX plat \<and>
        (\<forall>bs. mbrtoc32 plat' (Some bs) (narrow_state s) =
               mbrtoc32 plat (Some bs) (narrow_state s))" for plat' :: "'st platform"
    using that assms
      decode_consume_same_calls [of plat' plat s ceh 0 "replicate (MB_LEN_MAX plat) 0" inp out]
    by (simp add: decode_one_body_def)
  show ?thesis
  proof (intro conjI allI impI)
    fix r sp assume "decode_one_body plat ceh inp out s = Raised r sp"
    then show "state r = s" by (rule a)
  next
    fix r assume "decode_one_body plat ceh inp out s = Returned r"
      and "narrow_state (state r) \<noteq> narrow_state s"
    then show "error_code r = ok" using b by blast
  next
    fix r assume "decode_one_body plat ceh inp out s = Returned r"
      and "narrow_state (state r) \<noteq> narrow_state s"
    then show "pos (output r) = Suc (pos out)" using b by blast
  next
    fix r assume "decode_one_body plat ceh inp out s = Returned r"
    then show "state r = s \<or>
                (\<exists>n res stored st'. 0 < n \<and> n \<le> length inp \<and> input r = drop n inp \<and>
                   mbrtoc32 plat (Some (take n inp)) (narrow_state s) = (res, stored, st') \<and>
                   res \<noteq> - 1 \<and> res \<noteq> - 2 \<and> res \<noteq> 0 \<and>
                   state r = s\<lparr>narrow_state := st', output_pending := (res = - 3)\<rparr>)"
      by (rule c)
  next
    fix plat' :: "'st platform" assume "MB_LEN_MAX plat' = MB_LEN_MAX plat \<and>
                (\<forall>bs. mbrtoc32 plat' (Some bs) (narrow_state s) =
                       mbrtoc32 plat (Some bs) (narrow_state s))"
    then show "decode_one_body plat' ceh inp out s = decode_one_body plat ceh inp out s"
      by (rule d)
  qed
qed

text \<open>
  On the platform that counts the units read: the attempt on the lead byte alone leaves
  \<open>1\<close> in its copy and is reported as incomplete with the caller's \<open>0\<close>; after the lead
  and the trail byte the committed state is \<open>2\<close>, what the attempt on both units left
  from the caller's \<open>0\<close>, with nothing of the first attempt in it; and the platform that
  fails outside the initial state decodes the same.
\<close>

theorem consume_loop_commits_on_success_only_witness:
  "\<not> output_pending \<lparr>narrow_state = 0 :: nat, output_pending = False\<rparr> \<and>
   mbrtoc32 counting_platform (Some [0xC3]) 0 = (- 2, None, 1) \<and>
   mbrtoc32 counting_platform (Some [0xC3, 0xA9]) 0 = (2, Some 0xE9, 2) \<and>
   decode_one_body counting_platform True [0xC3] \<lparr>mem = [0xFFFD], pos = 0\<rparr>
       \<lparr>narrow_state = 0, output_pending = False\<rparr> =
     Raised \<lparr>input = [], output = \<lparr>mem = [0xFFFD], pos = 0\<rparr>,
             state = \<lparr>narrow_state = 0, output_pending = False\<rparr>,
             error_code = incomplete_sequence\<rparr>
       (Span [0xC3, 0, 0, 0, 0, 0, 0, 0, 0, 0, 0, 0, 0, 0, 0, 0] 1) \<and>
   decode_one_body counting_platform True [0xC3, 0xA9, 0x41] \<lparr>mem = [0xFFFD], pos = 0\<rparr>
       \<lparr>narrow_state = 0, output_pending = False\<rparr> =
     Returned \<lparr>input = [0x41], output = \<lparr>mem = [0xE9], pos = 1\<rparr>,
               state = \<lparr>narrow_state = 2, output_pending = False\<rparr>, error_code = ok\<rparr> \<and>
   MB_LEN_MAX initial_only_platform = MB_LEN_MAX counting_platform \<and>
   (\<forall>bs. mbrtoc32 initial_only_platform (Some bs) 0 = mbrtoc32 counting_platform (Some bs) 0) \<and>
   mbrtoc32 initial_only_platform (Some [0xC3, 0xA9]) 1 = (- 1, None, 1) \<and>
   decode_one_body initial_only_platform True [0xC3, 0xA9, 0x41] \<lparr>mem = [0xFFFD], pos = 0\<rparr>
       \<lparr>narrow_state = 0, output_pending = False\<rparr> =
     Returned \<lparr>input = [0x41], output = \<lparr>mem = [0xE9], pos = 1\<rparr>,
               state = \<lparr>narrow_state = 2, output_pending = False\<rparr>, error_code = ok\<rparr>"
proof -
  let ?s = "\<lparr>narrow_state = 0 :: nat, output_pending = False\<rparr>"
  let ?out = "\<lparr>mem = [0xFFFD :: code_point], pos = 0\<rparr>"
  have h: "\<not> output_pending ?s" by simp
  have m1: "mbrtoc32 counting_platform (Some [0xC3]) 0 = (- 2, None, 1)"
    by (simp add: counting_platform_def counting_mbrtoc32_def)
  have m2: "mbrtoc32 counting_platform (Some [0xC3, 0xA9]) 0 = (2, Some 0xE9, 2)"
    by (simp add: counting_platform_def counting_mbrtoc32_def)
  have m3: "mbrtoc32 initial_only_platform (Some [0xC3, 0xA9]) 1 = (- 1, None, 1)"
    by (simp add: initial_only_platform_def)
  have a: "decode_one_body counting_platform True [0xC3] ?out ?s =
     Raised \<lparr>input = [], output = ?out, state = ?s, error_code = incomplete_sequence\<rparr>
       (Span [0xC3, 0, 0, 0, 0, 0, 0, 0, 0, 0, 0, 0, 0, 0, 0, 0] 1)"
    by (simp add: decode_one_body_def counting_platform_def counting_mbrtoc32_def
          range_empty_def write_next_def Let_def replicate_numeral)
  have b: "decode_one_body counting_platform True [0xC3, 0xA9, 0x41] ?out ?s =
     Returned \<lparr>input = [0x41], output = \<lparr>mem = [0xE9], pos = 1\<rparr>,
               state = \<lparr>narrow_state = 2, output_pending = False\<rparr>, error_code = ok\<rparr>"
    by (simp add: decode_one_body_def counting_platform_def counting_mbrtoc32_def
          range_empty_def write_next_def Let_def replicate_numeral)
  have g1: "MB_LEN_MAX initial_only_platform = MB_LEN_MAX counting_platform"
    by (simp add: initial_only_platform_def counting_platform_def)
  have g2: "\<forall>bs. mbrtoc32 initial_only_platform (Some bs) (narrow_state ?s) =
                 mbrtoc32 counting_platform (Some bs) (narrow_state ?s)"
    by (simp add: initial_only_platform_def counting_platform_def)
  from consume_loop_commits_on_success_only
         [OF h, of counting_platform True "[0xC3, 0xA9, 0x41]" ?out]
  have "decode_one_body initial_only_platform True [0xC3, 0xA9, 0x41] ?out ?s =
        decode_one_body counting_platform True [0xC3, 0xA9, 0x41] ?out ?s"
    using g1 g2 by blast
  with h m1 m2 m3 a b g1 g2 show ?thesis by simp
qed

section \<open>Empty input\<close>

text \<open>
  C4: on an empty input range \<^verbatim>\<open>decode_one\<close> and \<^verbatim>\<open>encode_one\<close> return \<open>ok\<close> with the input,
  the output range and the state as they were, whatever the state (also with
  \<open>output_pending\<close> set), the output range (also an exhausted one) and the handler, which
  is not called: the check of the input comes before the check of the output.
\<close>

theorem empty_input_is_ok:
  "decode_one plat h [] out s = Inr \<lparr>input = [], output = out, state = s, error_code = ok\<rparr>
   \<and> encode_one plat' h' [] out' s' =
       Inr \<lparr>input = [], output = out', state = s', error_code = ok\<rparr>"
  by (simp add: decode_one_def decode_one_body_def encode_one_def encode_one_body_def)

section \<open>An exhausted output range\<close>

text \<open>
  C5, as the code has it: for every input range that is not empty and every handler that
  is not ignorable, \<^verbatim>\<open>encode_one\<close> on an exhausted output range calls the handler with a
  result that carries \<open>insufficient_output_space\<close>, the input range, the output range and
  the state untouched, and with an empty span of code points; what the handler returns is
  returned.
\<close>

theorem encode_one_output_exhausted:
  assumes "inp \<noteq> []" and "range_empty out" and "\<not> ignorable h"
  shows "encode_one plat h inp out s =
           Inr (invoke h \<lparr>input = inp, output = out, state = s,
                           error_code = insufficient_output_space\<rparr> (Span [] 0))"
  using assms by (cases inp) (simp_all add: encode_one_def encode_one_body_def)

text \<open>
  With the handler that returns what it is given, the result is the one built.
\<close>

theorem encode_one_output_exhausted_witness:
  "[0x41 :: code_point] \<noteq> [] \<and> range_empty \<lparr>mem = [] :: code_unit list, pos = 0\<rparr> \<and>
   \<not> ignorable (pass_through_handler :: (code_point, code_unit, code_point list encode_state) error_handler) \<and>
   encode_one sample_platform pass_through_handler [0x41] \<lparr>mem = [], pos = 0\<rparr>
       \<lparr>narrow_state = [], output_pending = False\<rparr> =
     Inr \<lparr>input = [0x41], output = \<lparr>mem = [], pos = 0\<rparr>,
          state = \<lparr>narrow_state = [], output_pending = False\<rparr>,
          error_code = insufficient_output_space\<rparr>"
proof -
  have h1: "[0x41 :: code_point] \<noteq> []" by simp
  have h2: "range_empty \<lparr>mem = [] :: code_unit list, pos = 0\<rparr>" by (simp add: range_empty_def)
  have h3: "\<not> ignorable (pass_through_handler :: (code_point, code_unit, code_point list encode_state) error_handler)"
    by (simp add: pass_through_handler_def)
  from encode_one_output_exhausted [OF h1 h2 h3, of sample_platform
      "\<lparr>narrow_state = [], output_pending = False\<rparr>"] h1 h2 h3
  show ?thesis by (simp add: pass_through_handler_def)
qed

text \<open>
  C5 as stated, for every input range and handler, fails: an empty input range gives
  \<open>ok\<close> also when the output range is exhausted, and with an ignorable handler the check
  of the output range is compiled out and the unit is written past the end.
\<close>

theorem encode_one_output_exhausted_counterexample:
  "encode_one sample_platform pass_through_handler [] \<lparr>mem = [], pos = 0\<rparr>
       \<lparr>narrow_state = [], output_pending = False\<rparr> =
     Inr \<lparr>input = [], output = \<lparr>mem = [], pos = 0\<rparr>,
          state = \<lparr>narrow_state = [], output_pending = False\<rparr>, error_code = ok\<rparr>
   \<and> encode_one sample_platform assume_valid_handler [0x41] \<lparr>mem = [], pos = 0\<rparr>
       \<lparr>narrow_state = [], output_pending = False\<rparr> = Inl write_past_output_end"
  by (simp add: encode_one_def encode_one_body_def sample_defs replicate_numeral)

text \<open>
  C10: for every input range that is not empty, an exhausted output range and a handler
  that is not ignorable, \<^verbatim>\<open>decode_one\<close> calls the handler with a result that carries
  \<open>insufficient_output_space\<close>, the whole input range, the output range and the state as
  they were on entry (also when \<open>output_pending\<close> is set: the drain is not reached), and
  with an empty span of code units.
\<close>

theorem decode_one_output_exhausted:
  assumes "inp \<noteq> []" and "range_empty out" and "\<not> ignorable h"
  shows "decode_one plat h inp out s =
           Inr (invoke h \<lparr>input = inp, output = out, state = s,
                           error_code = insufficient_output_space\<rparr> (Span [] 0))"
  using assms by (simp add: decode_one_def decode_one_body_def)

text \<open>
  On a pending state of the sample platform nothing is drained and nothing consumed.
\<close>

theorem decode_one_output_exhausted_witness:
  "[0x41 :: code_unit] \<noteq> [] \<and> range_empty \<lparr>mem = [] :: code_point list, pos = 0\<rparr> \<and>
   \<not> ignorable (pass_through_handler :: (code_unit, code_point, code_point list decode_state) error_handler) \<and>
   decode_one sample_platform pass_through_handler [0x41] \<lparr>mem = [], pos = 0\<rparr>
       \<lparr>narrow_state = [0x42, 0x43], output_pending = True\<rparr> =
     Inr \<lparr>input = [0x41], output = \<lparr>mem = [], pos = 0\<rparr>,
          state = \<lparr>narrow_state = [0x42, 0x43], output_pending = True\<rparr>,
          error_code = insufficient_output_space\<rparr>"
proof -
  have h1: "[0x41 :: code_unit] \<noteq> []" by simp
  have h2: "range_empty \<lparr>mem = [] :: code_point list, pos = 0\<rparr>" by (simp add: range_empty_def)
  have h3: "\<not> ignorable (pass_through_handler :: (code_unit, code_point, code_point list decode_state) error_handler)"
    by (simp add: pass_through_handler_def)
  from decode_one_output_exhausted [OF h1 h2 h3, of sample_platform
      "\<lparr>narrow_state = [0x42, 0x43], output_pending = True\<rparr>"] h1 h2 h3
  show ?thesis by (simp add: pass_through_handler_def)
qed

section \<open>Failures of \<^verbatim>\<open>encode_one\<close>\<close>

text \<open>
  C6: when \<^verbatim>\<open>c32rtomb\<close> is called (the output range has a cell) and returns \<open>- 1\<close> for the
  code point read, and there is a handler to call, \<^verbatim>\<open>encode_one\<close> calls it with a result
  that carries \<open>invalid_sequence\<close>, the input range past the code point, the output range
  unchanged, and with the span of that one code point.
\<close>

theorem encode_one_unrepresentable:
  assumes "\<not> ignorable h" and "\<not> range_empty out"
    and "c32rtomb plat c (narrow_state s) = (- 1, stored, st')"
    and "length stored \<le> MB_LEN_MAX plat"
  shows "encode_one plat h (c # rest) out s =
           Inr (invoke h \<lparr>input = rest, output = out, state = s\<lparr>narrow_state := st'\<rparr>,
                           error_code = invalid_sequence\<rparr> (Span [c] 1))"
  using assms by (simp add: encode_one_def encode_one_body_def)

text \<open>
  The sample platform cannot represent \<open>U+20AC\<close>.
\<close>

theorem encode_one_unrepresentable_witness:
  "\<not> ignorable (pass_through_handler :: (code_point, code_unit, code_point list encode_state) error_handler) \<and>
   \<not> range_empty \<lparr>mem = [0x55 :: code_unit], pos = 0\<rparr> \<and>
   c32rtomb sample_platform 0x20AC [] = (- 1, [], []) \<and>
   length ([] :: code_unit list) \<le> MB_LEN_MAX sample_platform \<and>
   encode_one sample_platform pass_through_handler [0x20AC, 0x41] \<lparr>mem = [0x55], pos = 0\<rparr>
       \<lparr>narrow_state = [], output_pending = False\<rparr> =
     Inr \<lparr>input = [0x41], output = \<lparr>mem = [0x55], pos = 0\<rparr>,
          state = \<lparr>narrow_state = [], output_pending = False\<rparr>,
          error_code = invalid_sequence\<rparr>"
proof -
  have h1: "\<not> ignorable (pass_through_handler :: (code_point, code_unit, code_point list encode_state) error_handler)"
    by (simp add: pass_through_handler_def)
  have h2: "\<not> range_empty \<lparr>mem = [0x55 :: code_unit], pos = 0\<rparr>" by (simp add: range_empty_def)
  have h3: "c32rtomb sample_platform 0x20AC
              (narrow_state \<lparr>narrow_state = [], output_pending = False\<rparr>) = (- 1, [], [])"
    by (simp add: sample_platform_def sample_c32rtomb_def)
  have h4: "length ([] :: code_unit list) \<le> MB_LEN_MAX sample_platform" by simp
  from encode_one_unrepresentable [OF h1 h2 h3 h4, of "[0x41]"] h1 h2 h3 h4
  show ?thesis by (simp add: pass_through_handler_def)
qed

text \<open>
  C7: when \<^verbatim>\<open>c32rtomb\<close> produced more units than the output range has cells, and the
  range has at least one, \<^verbatim>\<open>encode_one\<close> with a handler to call writes as many units as
  there are cells, then calls the handler with a result that carries
  \<open>insufficient_output_space\<close>, the input range past the code point, the output range at
  its end with the written units in place, and with the span of the one code point.
\<close>

theorem encode_one_partial_copy:
  assumes "\<not> ignorable h"
    and "c32rtomb plat c (narrow_state s) = (res, stored, st')"
    and "res \<noteq> - 1"
    and "length stored \<le> MB_LEN_MAX plat"
    and "unat res \<le> MB_LEN_MAX plat"
    and "pos out < length (mem out)"
    and "length (mem out) - pos out < unat res"
  shows "encode_one plat h (c # rest) out s =
           Inr (invoke h
                  \<lparr>input = rest,
                   output = \<lparr>mem = take (pos out) (mem out) @
                                    take (length (mem out) - pos out)
                                      (stored @ replicate (MB_LEN_MAX plat - length stored) 0),
                             pos = length (mem out)\<rparr>,
                   state = s\<lparr>narrow_state := st'\<rparr>,
                   error_code = insufficient_output_space\<rparr> (Span [c] 1))"
proof -
  let ?buf = "stored @ replicate (MB_LEN_MAX plat - length stored) 0"
  let ?k = "length (mem out) - pos out"
  have len: "length ?buf = MB_LEN_MAX plat" using assms(4) by simp
  have copy: "encode_copy True c rest (s\<lparr>narrow_state := st'\<rparr>) ?buf (unat res) out =
     Raised \<lparr>input = rest,
             output = \<lparr>mem = take (pos out) (mem out) @ take ?k ?buf, pos = length (mem out)\<rparr>,
             state = s\<lparr>narrow_state := st'\<rparr>, error_code = insufficient_output_space\<rparr> (Span [c] 1)"
    using assms(5,6,7) len by (intro encode_copy_out_of_space) simp_all
  have ne: "\<not> range_empty out" using assms(6) by (simp add: range_empty_def)
  show ?thesis
    using assms(1,2,3,4) ne copy by (simp add: encode_one_def encode_one_body_def)
qed

text \<open>
  \<open>U+00E9\<close> needs two units; with one cell left the first unit is written and stays.
\<close>

theorem encode_one_partial_copy_witness:
  "\<not> ignorable (pass_through_handler :: (code_point, code_unit, code_point list encode_state) error_handler) \<and>
   c32rtomb sample_platform 0xE9 [] = (2, [0xC3, 0xA9], []) \<and>
   (2 :: size_t) \<noteq> - 1 \<and>
   length [0xC3, 0xA9 :: code_unit] \<le> MB_LEN_MAX sample_platform \<and>
   unat (2 :: size_t) \<le> MB_LEN_MAX sample_platform \<and>
   encode_one sample_platform pass_through_handler [0xE9, 0x41] \<lparr>mem = [1, 1, 1], pos = 2\<rparr>
       \<lparr>narrow_state = [], output_pending = False\<rparr> =
     Inr \<lparr>input = [0x41], output = \<lparr>mem = [1, 1, 0xC3], pos = 3\<rparr>,
          state = \<lparr>narrow_state = [], output_pending = False\<rparr>,
          error_code = insufficient_output_space\<rparr>"
proof -
  let ?out = "\<lparr>mem = [1, 1, 1 :: code_unit], pos = 2\<rparr>"
  have h1: "\<not> ignorable (pass_through_handler :: (code_point, code_unit, code_point list encode_state) error_handler)"
    by (simp add: pass_through_handler_def)
  have h2: "c32rtomb sample_platform 0xE9
              (narrow_state \<lparr>narrow_state = [], output_pending = False\<rparr>) = (2, [0xC3, 0xA9], [])"
    by (simp add: sample_platform_def sample_c32rtomb_def)
  have h3: "(2 :: size_t) \<noteq> - 1" by simp
  have h4: "length [0xC3, 0xA9 :: code_unit] \<le> MB_LEN_MAX sample_platform"
    by (simp add: sample_platform_def)
  have h5: "unat (2 :: size_t) \<le> MB_LEN_MAX sample_platform" by (simp add: sample_platform_def)
  have h6: "pos ?out < length (mem ?out)" by simp
  have h7: "length (mem ?out) - pos ?out < unat (2 :: size_t)" by simp
  from encode_one_partial_copy [OF h1 h2 h3 h4 h5 h6 h7, of "[0x41]"] h1 h2 h3 h4 h5
  show ?thesis by (simp add: pass_through_handler_def sample_platform_def replicate_numeral)
qed

section \<open>The null character\<close>

text \<open>
  C8, on the sample platform: for the result \<open>0\<close> of the primitive \<^verbatim>\<open>decode_one\<close> returns
  \<open>ok\<close> with the input advanced past the null unit, and the output range is the one
  passed in: no code point is written and the position does not move. For the unit
  \<open>0x41\<close> the same call writes the code point and moves the position by one.
\<close>

theorem null_terminator_is_not_written:
  "decode_one sample_platform pass_through_handler [0, 0x41] \<lparr>mem = [0xFFFD], pos = 0\<rparr>
       \<lparr>narrow_state = [], output_pending = False\<rparr> =
     Inr \<lparr>input = [0x41], output = \<lparr>mem = [0xFFFD], pos = 0\<rparr>,
          state = \<lparr>narrow_state = [], output_pending = False\<rparr>, error_code = ok\<rparr>
   \<and> decode_one sample_platform pass_through_handler [0x41] \<lparr>mem = [0xFFFD], pos = 0\<rparr>
       \<lparr>narrow_state = [], output_pending = False\<rparr> =
     Inr \<lparr>input = [], output = \<lparr>mem = [0x41], pos = 1\<rparr>,
          state = \<lparr>narrow_state = [], output_pending = False\<rparr>, error_code = ok\<rparr>"
  by (simp add: decode_one_def decode_one_body_def sample_defs Let_def replicate_numeral)

section \<open>Ignorable handlers\<close>

text \<open>
  C9, as the code has it: with an ignorable handler the error checks are compiled out.
  The bodies never reach a call of the handler, and every result that \<^verbatim>\<open>encode_one\<close> or
  \<^verbatim>\<open>decode_one\<close> returns carries \<open>ok\<close>; no result with another error code is returned.
\<close>

theorem ignorable_handler_returns_only_ok:
  assumes "ignorable h_enc" and "ignorable h_dec"
  shows "(\<forall>r sp. encode_one_body plat False inp out s \<noteq> Raised r sp) \<and>
         (\<forall>r. encode_one plat h_enc inp out s = Inr r \<longrightarrow> error_code r = ok) \<and>
         (\<forall>r sp. decode_one_body plat' False inp' out' s' \<noteq> Raised r sp) \<and>
         (\<forall>r. decode_one plat' h_dec inp' out' s' = Inr r \<longrightarrow> error_code r = ok)"
proof -
  have e_nr: "encode_one_body plat False inp out s \<noteq> Raised r sp" for r sp
    by (auto simp: encode_one_body_def encode_copy_not_Raised split: list.splits prod.splits)
  have e_ok: "error_code r = ok" if "encode_one_body plat False inp out s = Returned r" for r
    using that
    by (auto simp: encode_one_body_def dest: encode_copy_Returned_ok
             split: list.splits prod.splits if_splits)
  have d_nr: "decode_one_body plat' False inp' out' s' \<noteq> Raised r sp" for r sp
    by (auto simp: decode_one_body_def decode_consume_not_Raised decode_drain_not_Raised)
  have d_ok: "error_code r = ok" if "decode_one_body plat' False inp' out' s' = Returned r" for r
    using that
    by (auto simp: decode_one_body_def dest: decode_consume_Returned decode_drain_Returned_ok
             split: if_splits)
  have e: "error_code r = ok" if "encode_one plat h_enc inp out s = Inr r" for r
    using that assms(1) e_nr e_ok
    by (cases "encode_one_body plat False inp out s") (auto simp: encode_one_def)
  have d: "error_code r = ok" if "decode_one plat' h_dec inp' out' s' = Inr r" for r
    using that assms(2) d_nr d_ok
    by (cases "decode_one_body plat' False inp' out' s'") (auto simp: decode_one_def)
  show ?thesis using e_nr d_nr e d by blast
qed

text \<open>
  On the sample platform: an encoding that succeeds, and a drain on a state in which
  nothing waits, which returns \<open>ok\<close> with a zero code point written.
\<close>

theorem ignorable_handler_returns_only_ok_witness:
  "ignorable (assume_valid_handler :: (code_point, code_unit, code_point list encode_state) error_handler) \<and>
   ignorable (assume_valid_handler :: (code_unit, code_point, code_point list decode_state) error_handler) \<and>
   encode_one sample_platform assume_valid_handler [0xE9] \<lparr>mem = [1, 1, 1], pos = 0\<rparr>
       \<lparr>narrow_state = [], output_pending = False\<rparr> =
     Inr \<lparr>input = [], output = \<lparr>mem = [0xC3, 0xA9, 1], pos = 2\<rparr>,
          state = \<lparr>narrow_state = [], output_pending = False\<rparr>, error_code = ok\<rparr> \<and>
   decode_one sample_platform assume_valid_handler [0x80, 0x41] \<lparr>mem = [0xFFFD], pos = 0\<rparr>
       \<lparr>narrow_state = [], output_pending = True\<rparr> =
     Inr \<lparr>input = [0x80, 0x41], output = \<lparr>mem = [0], pos = 1\<rparr>,
          state = \<lparr>narrow_state = [], output_pending = False\<rparr>, error_code = ok\<rparr>"
proof -
  let ?s = "\<lparr>narrow_state = [] :: code_point list, output_pending = False\<rparr>"
  have h1: "ignorable (assume_valid_handler :: (code_point, code_unit, code_point list encode_state) error_handler)"
    by (simp add: assume_valid_handler_def)
  have h2: "ignorable (assume_valid_handler :: (code_unit, code_point, code_point list decode_state) error_handler)"
    by (simp add: assume_valid_handler_def)
  have a: "encode_one sample_platform assume_valid_handler [0xE9] \<lparr>mem = [1, 1, 1], pos = 0\<rparr> ?s =
     Inr \<lparr>input = [], output = \<lparr>mem = [0xC3, 0xA9, 1], pos = 2\<rparr>, state = ?s, error_code = ok\<rparr>"
    by (simp add: encode_one_def encode_one_body_def sample_defs encode_copy_numeral replicate_numeral)
  have b: "decode_one sample_platform assume_valid_handler [0x80, 0x41] \<lparr>mem = [0xFFFD], pos = 0\<rparr>
       \<lparr>narrow_state = [], output_pending = True\<rparr> =
     Inr \<lparr>input = [0x80, 0x41], output = \<lparr>mem = [0], pos = 1\<rparr>, state = ?s, error_code = ok\<rparr>"
    by (simp add: decode_one_def decode_one_body_def decode_drain_def sample_defs)
  from ignorable_handler_returns_only_ok [OF h1 h2, of sample_platform "[0xE9]"
         "\<lparr>mem = [1, 1, 1], pos = 0\<rparr>" ?s sample_platform "[0x80, 0x41]"
         "\<lparr>mem = [0xFFFD], pos = 0\<rparr>" "\<lparr>narrow_state = [], output_pending = True\<rparr>"]
       h1 h2 a b
  show ?thesis by simp
qed

text \<open>
  C9 as stated fails on its own examples. With an ignorable handler, a code point without
  representation makes the copy loop of \<^verbatim>\<open>encode_one\<close> run on the result \<open>- 1\<close> and write
  past the output range; sixteen units that never resolve take the loop of \<^verbatim>\<open>decode_one\<close>
  to its bound, after which the function ends without returning a result. Neither call
  returns a result with the error code of the failure.
\<close>

theorem ignorable_handler_counterexample:
  "encode_one sample_platform assume_valid_handler [0x20AC] \<lparr>mem = [0x55], pos = 0\<rparr>
       \<lparr>narrow_state = [], output_pending = False\<rparr> = Inl write_past_output_end
   \<and> decode_one sample_platform assume_valid_handler
       [0x80, 0x80, 0x80, 0x80, 0x80, 0x80, 0x80, 0x80, 0x80, 0x80, 0x80, 0x80, 0x80, 0x80, 0x80, 0x80]
       \<lparr>mem = [0xFFFD], pos = 0\<rparr> \<lparr>narrow_state = [], output_pending = False\<rparr> =
     Inl missing_return"
  by (simp add: encode_one_def encode_one_body_def decode_one_def decode_one_body_def sample_defs
        encode_copy_numeral unat_size_max replicate_numeral loop_exhausted_def Let_def)

end
